theory Spec2Isabelle
  imports Main "HOL-Library.Word"
begin

section \<open>Manifest generators of the installer: networking and cluster DNS\<close>

text \<open>
  A shallow embedding of the two Go files of package \<open>manifests\<close>:
  the \<open>Networking\<close> asset (\<open>Generate\<close>, \<open>Files\<close>, \<open>ClusterNetwork\<close>, \<open>Load\<close>) and, of
  the \<open>clusterDNSOperator\<close> asset, the method \<open>dnsOperatorConfig\<close>.

  Go methods are named \<open>Receiver_Method\<close>. A method that assigns to its receiver takes
  the receiver and returns it updated. A Go \<open>error\<close> result is an \<open>error option\<close>
  (\<open>None\<close> is \<open>nil\<close>); a \<open>(value, error)\<close> result is a sum with \<open>Inl\<close> the error.
\<close>

subsection \<open>Errors and files\<close>

type_synonym bytes = string

text \<open>
  Go's \<open>error\<close> interface. \<open>Errorf\<close> and \<open>Wrapf\<close> are the two constructors of
  \<open>github.com/pkg/errors\<close> the code calls, with the format already expanded.
  \<open>ErrNotExist\<close> stands for an error of the operating system that says a file is absent,
  \<open>ErrOther\<close> for every other error a collaborator outside the package hands back.
\<close>

datatype error =
    ErrNotExist string
  | ErrOther string
  | Errorf string
  | Wrapf error string

text \<open>
  \<open>os.IsNotExist\<close>: true of the operating system's own errors only; an error wrapped by
  \<open>errors.Wrapf\<close> is not looked into.
\<close>

fun os_IsNotExist :: "error \<Rightarrow> bool" where
  "os_IsNotExist (ErrNotExist p) = True"
| "os_IsNotExist (ErrOther m) = False"
| "os_IsNotExist (Errorf m) = False"
| "os_IsNotExist (Wrapf e m) = False"

subsection \<open>The cluster DNS operator's data\<close>

text \<open>\<open>clusterdnsopapi.ClusterDNS\<close>: the two fields of its \<open>Spec\<close> are pointers to strings.\<close>

record ClusterDNSSpec =
  ClusterIP :: "string option"
  ClusterDomain :: "string option"

record ClusterDNS =
  Spec :: ClusterDNSSpec

subsection \<open>The install configuration\<close>

text \<open>\<open>net.IP\<close> is a byte slice; \<open>ipnet.IPNet\<close> embeds \<open>net.IPNet\<close>.\<close>

type_synonym IP = "8 word list"

record net_IPNet =
  IP :: IP
  Mask :: "8 word list"

record ipnet_IPNet =
  IPNet :: net_IPNet

type_synonym NetworkType = string
type_synonym SDNMode = string

text \<open>\<open>netopv1.ClusterNetwork\<close>; \<open>HostSubnetLength\<close> is a \<open>uint32\<close>.\<close>

record ClusterNetwork =
  CIDR :: string
  HostSubnetLength :: "32 word"

text \<open>\<open>types.Networking\<close>, restricted to the fields the generators read.\<close>

record types_Networking =
  Type :: NetworkType
  ServiceCIDR :: ipnet_IPNet
  PodCIDR :: ipnet_IPNet
  ClusterNetworks :: "ClusterNetwork list"

record types_InstallConfig =
  BaseDomain :: string
  Networking :: types_Networking

text \<open>\<open>installconfig.InstallConfig\<close>, the asset the networking generator depends on.\<close>

record installconfig_InstallConfig =
  Config :: types_InstallConfig

subsection \<open>The network operator's configuration\<close>

text \<open>
  \<open>netopv1.NetworkConfig\<close> with the fields \<open>Generate\<close> sets. The fields of the operator's
  types that the code leaves at their zero value are not part of the model.
\<close>

record OpenshiftSDNConfig =
  Mode :: SDNMode

record DefaultNetworkDefinition =
  Type :: NetworkType
  OpenshiftSDNConfig :: "OpenshiftSDNConfig option"

record NetworkConfigSpec =
  ClusterNetworks :: "ClusterNetwork list"
  ServiceNetwork :: string
  DefaultNetwork :: DefaultNetworkDefinition

record TypeMeta =
  APIVersion :: string
  Kind :: string

record ObjectMeta =
  Name :: string

record NetworkConfig =
  TypeMeta :: TypeMeta
  ObjectMeta :: ObjectMeta
  Spec :: NetworkConfigSpec

text \<open>\<open>asset.File\<close> and \<open>asset.FileFetcher\<close> (its method \<open>FetchByName\<close>).\<close>

record File =
  Filename :: string
  Data :: bytes

type_synonym FileFetcher = "string \<Rightarrow> error + File"

text \<open>\<open>clusterv1a1.ClusterNetworkingConfig\<close>, the result of \<open>ClusterNetwork\<close>.\<close>

record NetworkRanges =
  CIDRBlocks :: "string list"

record ClusterNetworkingConfig =
  Services :: NetworkRanges
  Pods :: NetworkRanges

subsection \<open>What lies outside the two files\<close>

text \<open>
  The generators call into the Go standard library, the YAML codec, the operators' API
  packages and other packages of the installer. None of that code is among the two files,
  so each such function or constant is a field of the record \<open>externals\<close>, and every
  definition below takes the record as its first argument:

  \<^item> \<open>manifestDir\<close>: the package constant the two file names are joined to;
  \<^item> \<open>filepath_Join\<close>: \<open>filepath.Join\<close> on two elements;
  \<^item> \<open>IsUnspecified\<close>: \<open>net.IP.IsUnspecified\<close>;
  \<^item> \<open>IPNet_String\<close>: the \<open>String\<close> method of \<open>ipnet.IPNet\<close>;
  \<^item> \<open>SchemeGroupVersion_String\<close>: \<open>netopv1.SchemeGroupVersion.String()\<close>;
  \<^item> \<open>NetworkTypeOpenshiftSDN\<close>, \<open>SDNModePolicy\<close>: constants of \<open>netopv1\<close>;
  \<^item> \<open>yaml_Marshal\<close>, \<open>yaml_Unmarshal\<close>: the codec at type \<open>NetworkConfig\<close>;
  \<^item> \<open>ClusterDNSIP\<close>: the helper of package \<open>installconfig\<close> that derives the
    cluster IP of the DNS service.
\<close>

type_synonym Asset = string

record externals =
  manifestDir :: string
  filepath_Join :: "string \<Rightarrow> string \<Rightarrow> string"
  IsUnspecified :: "IP \<Rightarrow> bool"
  IPNet_String :: "ipnet_IPNet \<Rightarrow> string"
  SchemeGroupVersion_String :: string
  NetworkTypeOpenshiftSDN :: NetworkType
  SDNModePolicy :: SDNMode
  yaml_Marshal :: "NetworkConfig \<Rightarrow> error + bytes"
  yaml_Unmarshal :: "bytes \<Rightarrow> error + NetworkConfig"
  ClusterDNSIP :: "types_InstallConfig \<Rightarrow> error + string"

subsection \<open>The networking generator\<close>

definition noCrdFilename :: "externals \<Rightarrow> string" where
  "noCrdFilename ext = filepath_Join ext (manifestDir ext) ''cluster-network-01-crd.yml''"

definition noCfgFilename :: "externals \<Rightarrow> string" where
  "noCfgFilename ext = filepath_Join ext (manifestDir ext) ''cluster-network-02-config.yml''"

definition netConfigCRD :: string where
  "netConfigCRD =
     ''\<newline>apiVersion: apiextensions.k8s.io/v1beta1\<newline>kind: CustomResourceDefinition\<newline>metadata:\<newline>  name: networkconfigs.networkoperator.openshift.io\<newline>spec:\<newline>  group: networkoperator.openshift.io\<newline>  names:\<newline>    kind: NetworkConfig\<newline>    listKind: NetworkConfigList\<newline>    plural: networkconfigs\<newline>    singular: networkconfig\<newline>  scope: Cluster\<newline>  versions:\<newline>    - name: v1\<newline>      served: true\<newline>      storage: true\<newline>''"

text \<open>The asset: the derived configuration (a pointer, \<open>None\<close> when nil) and its files.\<close>

record Networking =
  config :: "NetworkConfig option"
  FileList :: "File list"

definition Networking_Name :: "Networking \<Rightarrow> string" where
  "Networking_Name no = ''Network Config''"

text \<open>
  \<open>Generate\<close>. The install configuration is the one the parents hold
  (\<open>dependencies.Get\<close>). The three-way choice of \<open>clusterNets\<close> either yields the list or
  returns the error at once; \<open>no.config\<close> is assigned before the configuration is
  marshalled, \<open>no.FileList\<close> only after.
\<close>

definition Networking_Generate ::
    "externals \<Rightarrow> installconfig_InstallConfig \<Rightarrow> Networking \<Rightarrow> Networking \<times> error option" where
  "Networking_Generate ext installConfig no =
     (let netConfig = Networking (Config installConfig) in
      case (if length (types_Networking.ClusterNetworks netConfig) > 0
            then Inr (types_Networking.ClusterNetworks netConfig)
            else if \<not> IsUnspecified ext (IP (IPNet (PodCIDR netConfig)))
            then Inr [\<lparr>CIDR = IPNet_String ext (PodCIDR netConfig), HostSubnetLength = 9\<rparr>]
            else Inl (Errorf ''Either PodCIDR or ClusterNetworks must be specified'')) of
        Inl err \<Rightarrow> (no, Some err)
      | Inr clusterNets \<Rightarrow>
          (let defaultNet = \<lparr>Type = types_Networking.Type netConfig, OpenshiftSDNConfig = None\<rparr>;
               defaultNet =
                 (if types_Networking.Type netConfig = NetworkTypeOpenshiftSDN ext
                  then defaultNet\<lparr>OpenshiftSDNConfig := Some \<lparr>Mode = SDNModePolicy ext\<rparr>\<rparr>
                  else defaultNet);
               cfg = \<lparr>TypeMeta = \<lparr>APIVersion = SchemeGroupVersion_String ext,
                                   Kind = ''NetworkConfig''\<rparr>,
                      ObjectMeta = \<lparr>Name = ''default''\<rparr>,
                      Spec = \<lparr>ClusterNetworks = clusterNets,
                               ServiceNetwork = IPNet_String ext (ServiceCIDR netConfig),
                               DefaultNetwork = defaultNet\<rparr>\<rparr>;
               no = no\<lparr>config := Some cfg\<rparr>
           in case yaml_Marshal ext cfg of
                Inl err \<Rightarrow>
                  (no, Some (Wrapf err (''failed to create '' @ Networking_Name no
                                          @ '' manifests from InstallConfig'')))
              | Inr configData \<Rightarrow>
                  (no\<lparr>FileList := [\<lparr>Filename = noCrdFilename ext, Data = netConfigCRD\<rparr>,
                                    \<lparr>Filename = noCfgFilename ext, Data = configData\<rparr>]\<rparr>,
                   None)))"

definition Networking_Files :: "Networking \<Rightarrow> File list" where
  "Networking_Files no = FileList no"

text \<open>The loop of \<open>ClusterNetwork\<close>: \<open>pods = append(pods, cn.CIDR)\<close> for each network.\<close>

fun append_CIDRs :: "string list \<Rightarrow> ClusterNetwork list \<Rightarrow> string list" where
  "append_CIDRs pods [] = pods"
| "append_CIDRs pods (cn # cns) = append_CIDRs (pods @ [CIDR cn]) cns"

definition Networking_ClusterNetwork :: "Networking \<Rightarrow> error + ClusterNetworkingConfig" where
  "Networking_ClusterNetwork no =
     (case config no of
        None \<Rightarrow> Inl (Errorf ''ClusterNetwork called before initialization'')
      | Some c \<Rightarrow>
          (let pods = append_CIDRs [] (ClusterNetworks (Spec c))
           in Inr \<lparr>Services = \<lparr>CIDRBlocks = [ServiceNetwork (Spec c)]\<rparr>,
                   Pods = \<lparr>CIDRBlocks = pods\<rparr>\<rparr>))"

text \<open>
  \<open>Load\<close> returns the receiver, the flag and the error. The receiver is assigned in the
  last statement only.
\<close>

definition Networking_Load ::
    "externals \<Rightarrow> FileFetcher \<Rightarrow> Networking \<Rightarrow> Networking \<times> bool \<times> error option" where
  "Networking_Load ext f no =
     (case f (noCrdFilename ext) of
        Inl err \<Rightarrow> if os_IsNotExist err then (no, False, None) else (no, False, Some err)
      | Inr crdFile \<Rightarrow>
          (case f (noCfgFilename ext) of
             Inl err \<Rightarrow> if os_IsNotExist err then (no, False, None) else (no, False, Some err)
           | Inr cfgFile \<Rightarrow>
               (case yaml_Unmarshal ext (File.Data cfgFile) of
                  Inl err \<Rightarrow>
                    (no, False, Some (Wrapf err (''failed to unmarshal '' @ noCfgFilename ext)))
                | Inr netConfig \<Rightarrow>
                    (no\<lparr>FileList := [crdFile, cfgFile], config := Some netConfig\<rparr>,
                     True, None))))"

subsection \<open>The cluster DNS generator\<close>

record clusterDNSOperator =
  installConfigAsset :: Asset
  installConfig :: "types_InstallConfig option"

text \<open>
  \<open>dnsOperatorConfig\<close> returns a pair, as the Go function does: the configuration and no
  error, or no configuration and the error of \<open>ClusterDNSIP\<close>. It reads
  \<open>cdo.installConfig\<close>, which \<open>Generate\<close> has assigned before the call; on a nil pointer
  the Go code cannot get past the read of \<open>BaseDomain\<close>, and the model gives that
  panic as an error value.
\<close>

definition dnsOperatorConfig ::
    "externals \<Rightarrow> clusterDNSOperator \<Rightarrow> ClusterDNS option \<times> error option" where
  "dnsOperatorConfig ext cdo =
     (case installConfig cdo of
        None \<Rightarrow> (None, Some (ErrOther ''nil pointer dereference''))
      | Some ic \<Rightarrow>
          (case ClusterDNSIP ext ic of
             Inl err \<Rightarrow> (None, Some err)
           | Inr clusterIP \<Rightarrow>
               (Some \<lparr>ClusterDNS.Spec = \<lparr>ClusterIP = Some clusterIP,
                                         ClusterDomain = Some (BaseDomain ic)\<rparr>\<rparr>,
                None)))"

text \<open>
  \<open>dnsConfig\<close> is \<open>return yaml.Marshal(cdo.dnsOperatorConfig())\<close>. It hands the two
  results of \<open>dnsOperatorConfig\<close> to \<open>yaml.Marshal\<close>, a function of one parameter, so
  the method has no meaning as Go and is not embedded; neither is \<open>Generate\<close> of the
  DNS asset, which needs the result of \<open>dnsConfig\<close> on every path past its first check.
\<close>

subsection \<open>An instance of the externals, for running the generators\<close>

text \<open>
  The theorems below hold for every value of \<open>externals\<close>. To run the generators on
  concrete install configurations the record is filled in here: the standard library's
  test for the unspecified address, a dotted-decimal \<open>String\<close> for four-byte addresses,
  and a small codec that writes a \<open>NetworkConfig\<close> as text and reads back the documents
  of the two sample configurations.
\<close>

definition v4InV6Prefix :: "8 word list" where
  "v4InV6Prefix = [0, 0, 0, 0, 0, 0, 0, 0, 0, 0, 0xff, 0xff]"

definition IP_Equal :: "IP \<Rightarrow> IP \<Rightarrow> bool" where
  "IP_Equal ip x =
     (if length ip = length x then ip = x
      else if length ip = 4 \<and> length x = 16 then take 12 x = v4InV6Prefix \<and> ip = drop 12 x
      else if length ip = 16 \<and> length x = 4 then take 12 ip = v4InV6Prefix \<and> drop 12 ip = x
      else False)"

definition IP_IsUnspecified :: "IP \<Rightarrow> bool" where
  "IP_IsUnspecified ip =
     (IP_Equal ip (v4InV6Prefix @ [0, 0, 0, 0]) \<or> IP_Equal ip (replicate 16 0))"

fun dec :: "nat \<Rightarrow> string" where
  "dec n = (if n < 10 then [''0123456789'' ! n]
            else dec (n div 10) @ [''0123456789'' ! (n mod 10)])"

fun dotted :: "8 word list \<Rightarrow> string" where
  "dotted [] = []"
| "dotted [b] = dec (unat b)"
| "dotted (b # bs) = dec (unat b) @ ''.'' @ dotted bs"

definition ones :: "8 word list \<Rightarrow> nat" where
  "ones m = sum_list (map (\<lambda>b. length (filter (bit b) [0..<8])) m)"

definition example_IPNet_String :: "ipnet_IPNet \<Rightarrow> string" where
  "example_IPNet_String n = dotted (IP (IPNet n)) @ ''/'' @ dec (ones (Mask (IPNet n)))"

definition example_render_network :: "ClusterNetwork \<Rightarrow> string" where
  "example_render_network cn =
     ''  - cidr: '' @ CIDR cn @ ''\<newline>''
     @ ''    hostSubnetLength: '' @ dec (unat (HostSubnetLength cn)) @ ''\<newline>''"

definition example_render :: "NetworkConfig \<Rightarrow> bytes" where
  "example_render c =
     ''apiVersion: '' @ APIVersion (TypeMeta c) @ ''\<newline>''
     @ ''kind: '' @ Kind (TypeMeta c) @ ''\<newline>''
     @ ''metadata:\<newline>  name: '' @ ObjectMeta.Name (ObjectMeta c) @ ''\<newline>''
     @ ''spec:\<newline>  clusterNetworks:\<newline>''
     @ concat (map example_render_network (ClusterNetworks (Spec c)))
     @ ''  defaultNetwork:\<newline>''
     @ (case OpenshiftSDNConfig (DefaultNetwork (Spec c)) of
          None \<Rightarrow> []
        | Some sdn \<Rightarrow> ''    openshiftSDNConfig:\<newline>      mode: '' @ Mode sdn @ ''\<newline>'')
     @ ''    type: '' @ Type (DefaultNetwork (Spec c)) @ ''\<newline>''
     @ ''  serviceNetwork: '' @ ServiceNetwork (Spec c) @ ''\<newline>''"

text \<open>The configurations \<open>Generate\<close> derives from the two sample install configurations.\<close>

definition example_config_pod :: NetworkConfig where
  "example_config_pod =
     \<lparr>TypeMeta = \<lparr>APIVersion = ''networkoperator.openshift.io/v1'', Kind = ''NetworkConfig''\<rparr>,
      ObjectMeta = \<lparr>Name = ''default''\<rparr>,
      Spec = \<lparr>ClusterNetworks = [\<lparr>CIDR = ''10.128.0.0/14'', HostSubnetLength = 9\<rparr>],
               ServiceNetwork = ''172.30.0.0/16'',
               DefaultNetwork = \<lparr>Type = ''OpenshiftSDN'',
                                 OpenshiftSDNConfig = Some \<lparr>Mode = ''NetworkPolicy''\<rparr>\<rparr>\<rparr>\<rparr>"

definition example_config_nets :: NetworkConfig where
  "example_config_nets =
     \<lparr>TypeMeta = \<lparr>APIVersion = ''networkoperator.openshift.io/v1'', Kind = ''NetworkConfig''\<rparr>,
      ObjectMeta = \<lparr>Name = ''default''\<rparr>,
      Spec = \<lparr>ClusterNetworks = [\<lparr>CIDR = ''10.128.0.0/14'', HostSubnetLength = 9\<rparr>,
                                 \<lparr>CIDR = ''10.132.0.0/14'', HostSubnetLength = 8\<rparr>],
               ServiceNetwork = ''172.30.0.0/16'',
               DefaultNetwork = \<lparr>Type = ''OVNKubernetes'', OpenshiftSDNConfig = None\<rparr>\<rparr>\<rparr>"

definition example_Unmarshal :: "bytes \<Rightarrow> error + NetworkConfig" where
  "example_Unmarshal d =
     (if d = example_render example_config_pod then Inr example_config_pod
      else if d = example_render example_config_nets then Inr example_config_nets
      else Inl (ErrOther ''yaml: cannot unmarshal the document''))"

definition example_installConfig :: "NetworkType \<Rightarrow> IP \<Rightarrow> ClusterNetwork list \<Rightarrow> installconfig_InstallConfig" where
  "example_installConfig t pod nets =
     \<lparr>Config = \<lparr>BaseDomain = ''example.com'',
                 Networking = \<lparr>types_Networking.Type = t,
                                ServiceCIDR = \<lparr>IPNet = \<lparr>IP = [172, 30, 0, 0], Mask = [255, 255, 0, 0]\<rparr>\<rparr>,
                                PodCIDR = \<lparr>IPNet = \<lparr>IP = pod, Mask = [255, 252, 0, 0]\<rparr>\<rparr>,
                                types_Networking.ClusterNetworks = nets\<rparr>\<rparr>\<rparr>"

text \<open>Only the legacy pod CIDR; an explicit list beside an unspecified pod CIDR; neither.\<close>

definition example_ic_pod :: installconfig_InstallConfig where
  "example_ic_pod = example_installConfig ''OpenshiftSDN'' [10, 128, 0, 0] []"

definition example_ic_nets :: installconfig_InstallConfig where
  "example_ic_nets =
     example_installConfig ''OVNKubernetes'' [0, 0, 0, 0]
       [\<lparr>CIDR = ''10.128.0.0/14'', HostSubnetLength = 9\<rparr>,
        \<lparr>CIDR = ''10.132.0.0/14'', HostSubnetLength = 8\<rparr>]"

definition example_ic_none :: installconfig_InstallConfig where
  "example_ic_none = example_installConfig ''OpenshiftSDN'' [0, 0, 0, 0] []"

definition example_ext :: externals where
  "example_ext =
     \<lparr>manifestDir = ''manifests'',
      filepath_Join = (\<lambda>dir name. dir @ ''/'' @ name),
      IsUnspecified = IP_IsUnspecified,
      IPNet_String = example_IPNet_String,
      SchemeGroupVersion_String = ''networkoperator.openshift.io/v1'',
      NetworkTypeOpenshiftSDN = ''OpenshiftSDN'',
      SDNModePolicy = ''NetworkPolicy'',
      yaml_Marshal = (\<lambda>c. Inr (example_render c)),
      yaml_Unmarshal = example_Unmarshal,
      ClusterDNSIP = (\<lambda>ic. Inr ''172.30.0.10'')\<rparr>"

text \<open>A fetcher over a list of files: the first file of that name, else "does not exist".\<close>

definition fetcher_of :: "File list \<Rightarrow> FileFetcher" where
  "fetcher_of files name =
     (case find (\<lambda>file. Filename file = name) files of
        None \<Rightarrow> Inl (ErrNotExist name)
      | Some file \<Rightarrow> Inr file)"

text \<open>The asset before \<open>Generate\<close> or \<open>Load\<close> has run.\<close>

definition empty_Networking :: Networking where
  "empty_Networking = \<lparr>config = None, FileList = []\<rparr>"

text \<open>
  Further sample inputs: a fetcher that is denied the CRD file and finds no config file,
  and a pair of files whose config file is not YAML.
\<close>

definition example_fetcher_denied :: FileFetcher where
  "example_fetcher_denied name =
     (if name = noCrdFilename example_ext
      then Inl (ErrOther ''open manifests/cluster-network-01-crd.yml: permission denied'')
      else Inl (ErrNotExist name))"

definition example_files_bad_yaml :: "File list" where
  "example_files_bad_yaml =
     [\<lparr>Filename = ''manifests/cluster-network-01-crd.yml'', Data = netConfigCRD\<rparr>,
      \<lparr>Filename = ''manifests/cluster-network-02-config.yml'', Data = ''spec: [unclosed''\<rparr>]"

section \<open>Properties\<close>

subsection \<open>Auxiliary facts\<close>

text \<open>The loop of \<open>ClusterNetwork\<close> collects the CIDRs in order.\<close>

lemma append_CIDRs_map: "append_CIDRs pods cns = pods @ map CIDR cns"
  by (induction cns arbitrary: pods) simp_all

text \<open>A successful \<open>Generate\<close> holds the configuration and the two files made from it.\<close>

lemma Generate_success_files:
  assumes "Networking_Generate ext ic no = (no', None)"
  shows "\<exists>c d. config no' = Some c \<and> yaml_Marshal ext c = Inr d
           \<and> FileList no' = [\<lparr>Filename = noCrdFilename ext, Data = netConfigCRD\<rparr>,
                              \<lparr>Filename = noCfgFilename ext, Data = d\<rparr>]"
  using assms
  by (auto simp: Networking_Generate_def Let_def split: sum.splits if_splits)

lemma Generate_populates_config:
  "snd (Networking_Generate ext ic no) = None
     \<Longrightarrow> config (fst (Networking_Generate ext ic no)) \<noteq> None"
  by (auto simp: Networking_Generate_def Let_def split: sum.splits if_splits)

lemma Load_populates_config:
  "fst (snd (Networking_Load ext f no)) \<Longrightarrow> config (fst (Networking_Load ext f no)) \<noteq> None"
  by (auto simp: Networking_Load_def split: sum.splits if_splits)

text \<open>The sample instance, evaluated.\<close>

lemma example_Marshal: "yaml_Marshal example_ext c = Inr (example_render c)"
  by (simp add: example_ext_def)

lemma example_Unmarshal: "yaml_Unmarshal example_ext = example_Unmarshal"
  by (simp add: example_ext_def)

lemma example_filenames:
  "noCrdFilename example_ext = ''manifests/cluster-network-01-crd.yml''"
  "noCfgFilename example_ext = ''manifests/cluster-network-02-config.yml''"
  by (simp_all add: noCrdFilename_def noCfgFilename_def example_ext_def)

lemma example_pod_empty:
  "types_Networking.ClusterNetworks (Networking (Config example_ic_pod)) = []"
  by (simp add: example_ic_pod_def example_installConfig_def)

lemma example_pod_specified:
  "\<not> IsUnspecified example_ext (IP (IPNet (PodCIDR (Networking (Config example_ic_pod)))))"
  by code_simp

lemma example_pod_String:
  "IPNet_String example_ext (PodCIDR (Networking (Config example_ic_pod))) = ''10.128.0.0/14''"
  by code_simp

lemma example_nets_nonempty:
  "types_Networking.ClusterNetworks (Networking (Config example_ic_nets)) \<noteq> []"
  by (simp add: example_ic_nets_def example_installConfig_def)

lemma example_nets_list:
  "types_Networking.ClusterNetworks (Networking (Config example_ic_nets)) =
     [\<lparr>CIDR = ''10.128.0.0/14'', HostSubnetLength = 9\<rparr>,
      \<lparr>CIDR = ''10.132.0.0/14'', HostSubnetLength = 8\<rparr>]"
  by (simp add: example_ic_nets_def example_installConfig_def)

lemma example_nets_unspecified:
  "IsUnspecified example_ext (IP (IPNet (PodCIDR (Networking (Config example_ic_nets)))))"
  by code_simp

lemma example_none_empty:
  "types_Networking.ClusterNetworks (Networking (Config example_ic_none)) = []"
  by (simp add: example_ic_none_def example_installConfig_def)

lemma example_none_unspecified:
  "IsUnspecified example_ext (IP (IPNet (PodCIDR (Networking (Config example_ic_none)))))"
  by code_simp

lemma example_Generate_pod:
  "Networking_Generate example_ext example_ic_pod empty_Networking =
     (\<lparr>config = Some example_config_pod,
       FileList = [\<lparr>Filename = ''manifests/cluster-network-01-crd.yml'', Data = netConfigCRD\<rparr>,
                   \<lparr>Filename = ''manifests/cluster-network-02-config.yml'',
                    Data = example_render example_config_pod\<rparr>]\<rparr>, None)"
  by code_simp

lemma example_Generate_nets:
  "Networking_Generate example_ext example_ic_nets empty_Networking =
     (\<lparr>config = Some example_config_nets,
       FileList = [\<lparr>Filename = ''manifests/cluster-network-01-crd.yml'', Data = netConfigCRD\<rparr>,
                   \<lparr>Filename = ''manifests/cluster-network-02-config.yml'',
                    Data = example_render example_config_nets\<rparr>]\<rparr>, None)"
  by code_simp

subsection \<open>\<open>Networking.Generate\<close>\<close>

text \<open>
  Claim C1. When the install configuration lists no cluster network and its pod CIDR is not
  the unspecified address, \<open>Generate\<close> stores a configuration whose cluster networks are
  exactly one entry: the string form of the pod CIDR with host subnet length 9. The one
  statement left that can fail is the call of the codec; whenever the codec marshals the
  stored configuration, \<open>Generate\<close> returns no error.
\<close>

theorem Generate_pod_CIDR_only:
  assumes "types_Networking.ClusterNetworks (Networking (Config ic)) = []"
      and "\<not> IsUnspecified ext (IP (IPNet (PodCIDR (Networking (Config ic)))))"
  shows "\<exists>c. config (fst (Networking_Generate ext ic no)) = Some c
           \<and> ClusterNetworks (Spec c) =
               [\<lparr>CIDR = IPNet_String ext (PodCIDR (Networking (Config ic))),
                 HostSubnetLength = 9\<rparr>]
           \<and> ((\<exists>d. yaml_Marshal ext c = Inr d)
                \<longrightarrow> snd (Networking_Generate ext ic no) = None)"
  using assms
  by (auto simp: Networking_Generate_def Let_def split: sum.splits)

theorem Generate_pod_CIDR_only_witness:
  "types_Networking.ClusterNetworks (Networking (Config example_ic_pod)) = []
   \<and> \<not> IsUnspecified example_ext (IP (IPNet (PodCIDR (Networking (Config example_ic_pod)))))
   \<and> snd (Networking_Generate example_ext example_ic_pod empty_Networking) = None
   \<and> (\<exists>c. config (fst (Networking_Generate example_ext example_ic_pod empty_Networking)) = Some c
          \<and> ClusterNetworks (Spec c) = [\<lparr>CIDR = ''10.128.0.0/14'', HostSubnetLength = 9\<rparr>])"
proof -
  have h1: "types_Networking.ClusterNetworks (Networking (Config example_ic_pod)) = []"
    by (rule example_pod_empty)
  have h2: "\<not> IsUnspecified example_ext (IP (IPNet (PodCIDR (Networking (Config example_ic_pod)))))"
    by (rule example_pod_specified)
  from Generate_pod_CIDR_only [OF h1 h2, of empty_Networking] obtain c where c:
    "config (fst (Networking_Generate example_ext example_ic_pod empty_Networking)) = Some c"
    "ClusterNetworks (Spec c) =
       [\<lparr>CIDR = IPNet_String example_ext (PodCIDR (Networking (Config example_ic_pod))),
         HostSubnetLength = 9\<rparr>]"
    "(\<exists>d. yaml_Marshal example_ext c = Inr d)
       \<longrightarrow> snd (Networking_Generate example_ext example_ic_pod empty_Networking) = None"
    by blast
  from c(3) have "snd (Networking_Generate example_ext example_ic_pod empty_Networking) = None"
    by (simp add: example_Marshal)
  moreover from c(2) have "ClusterNetworks (Spec c) = [\<lparr>CIDR = ''10.128.0.0/14'', HostSubnetLength = 9\<rparr>]"
    by (simp only: example_pod_String)
  ultimately show ?thesis using h1 h2 c(1) by blast
qed

text \<open>
  Claim C2. When the install configuration lists at least one cluster network, \<open>Generate\<close>
  stores a configuration whose cluster networks are that list, entry for entry and in the
  same order, whatever the pod CIDR is; and it returns no error whenever the codec
  marshals the stored configuration.
\<close>

theorem Generate_cluster_networks_kept:
  assumes "types_Networking.ClusterNetworks (Networking (Config ic)) \<noteq> []"
  shows "\<exists>c. config (fst (Networking_Generate ext ic no)) = Some c
           \<and> ClusterNetworks (Spec c) = types_Networking.ClusterNetworks (Networking (Config ic))
           \<and> ((\<exists>d. yaml_Marshal ext c = Inr d)
                \<longrightarrow> snd (Networking_Generate ext ic no) = None)"
  using assms
  by (auto simp: Networking_Generate_def Let_def split: sum.splits)

theorem Generate_cluster_networks_kept_witness:
  "types_Networking.ClusterNetworks (Networking (Config example_ic_nets)) \<noteq> []
   \<and> IsUnspecified example_ext (IP (IPNet (PodCIDR (Networking (Config example_ic_nets)))))
   \<and> snd (Networking_Generate example_ext example_ic_nets empty_Networking) = None
   \<and> (\<exists>c. config (fst (Networking_Generate example_ext example_ic_nets empty_Networking)) = Some c
          \<and> ClusterNetworks (Spec c) = [\<lparr>CIDR = ''10.128.0.0/14'', HostSubnetLength = 9\<rparr>,
                                         \<lparr>CIDR = ''10.132.0.0/14'', HostSubnetLength = 8\<rparr>])"
proof -
  have h: "types_Networking.ClusterNetworks (Networking (Config example_ic_nets)) \<noteq> []"
    by (rule example_nets_nonempty)
  from Generate_cluster_networks_kept [OF h, of example_ext empty_Networking] obtain c where c:
    "config (fst (Networking_Generate example_ext example_ic_nets empty_Networking)) = Some c"
    "ClusterNetworks (Spec c) = types_Networking.ClusterNetworks (Networking (Config example_ic_nets))"
    "(\<exists>d. yaml_Marshal example_ext c = Inr d)
       \<longrightarrow> snd (Networking_Generate example_ext example_ic_nets empty_Networking) = None"
    by blast
  from c(3) have "snd (Networking_Generate example_ext example_ic_nets empty_Networking) = None"
    by (simp add: example_Marshal)
  moreover from c(2) have "ClusterNetworks (Spec c) =
      [\<lparr>CIDR = ''10.128.0.0/14'', HostSubnetLength = 9\<rparr>,
       \<lparr>CIDR = ''10.132.0.0/14'', HostSubnetLength = 8\<rparr>]"
    by (simp only: example_nets_list)
  ultimately show ?thesis using h example_nets_unspecified c(1) by blast
qed

text \<open>
  Claim C3. When the install configuration lists no cluster network and its pod CIDR is the
  unspecified address, \<open>Generate\<close> returns the error "Either PodCIDR or ClusterNetworks
  must be specified" and leaves the asset as it was.
\<close>

theorem Generate_no_networking:
  assumes "types_Networking.ClusterNetworks (Networking (Config ic)) = []"
      and "IsUnspecified ext (IP (IPNet (PodCIDR (Networking (Config ic)))))"
  shows "Networking_Generate ext ic no =
           (no, Some (Errorf ''Either PodCIDR or ClusterNetworks must be specified''))"
  using assms by (simp add: Networking_Generate_def)

theorem Generate_no_networking_witness:
  "types_Networking.ClusterNetworks (Networking (Config example_ic_none)) = []
   \<and> IsUnspecified example_ext (IP (IPNet (PodCIDR (Networking (Config example_ic_none)))))
   \<and> Networking_Generate example_ext example_ic_none empty_Networking =
       (empty_Networking, Some (Errorf ''Either PodCIDR or ClusterNetworks must be specified''))"
  using Generate_no_networking [OF example_none_empty example_none_unspecified, of empty_Networking]
    example_none_empty example_none_unspecified
  by blast

text \<open>
  Claim C5. Whenever \<open>Generate\<close> gets past the choice of the cluster networks, the default
  network of the stored configuration has the network type of the install configuration,
  and it carries an \<open>OpenshiftSDNConfig\<close>, with \<open>Mode\<close> the policy mode, exactly when
  that type is \<open>NetworkTypeOpenshiftSDN\<close>; for every other type it carries none.
\<close>

theorem Generate_default_network:
  assumes "types_Networking.ClusterNetworks (Networking (Config ic)) \<noteq> []
           \<or> \<not> IsUnspecified ext (IP (IPNet (PodCIDR (Networking (Config ic)))))"
  shows "\<exists>c. config (fst (Networking_Generate ext ic no)) = Some c
           \<and> Type (DefaultNetwork (Spec c)) = types_Networking.Type (Networking (Config ic))
           \<and> OpenshiftSDNConfig (DefaultNetwork (Spec c)) =
               (if types_Networking.Type (Networking (Config ic)) = NetworkTypeOpenshiftSDN ext
                then Some \<lparr>Mode = SDNModePolicy ext\<rparr> else None)"
  using assms
  by (auto simp: Networking_Generate_def Let_def split: sum.splits)

theorem Generate_default_network_witness:
  "(\<exists>c. config (fst (Networking_Generate example_ext example_ic_pod empty_Networking)) = Some c
        \<and> Type (DefaultNetwork (Spec c)) = ''OpenshiftSDN''
        \<and> OpenshiftSDNConfig (DefaultNetwork (Spec c)) = Some \<lparr>Mode = ''NetworkPolicy''\<rparr>)
   \<and> (\<exists>c. config (fst (Networking_Generate example_ext example_ic_nets empty_Networking)) = Some c
        \<and> Type (DefaultNetwork (Spec c)) = ''OVNKubernetes''
        \<and> OpenshiftSDNConfig (DefaultNetwork (Spec c)) = None)"
proof -
  have h1: "types_Networking.ClusterNetworks (Networking (Config example_ic_pod)) \<noteq> []
           \<or> \<not> IsUnspecified example_ext (IP (IPNet (PodCIDR (Networking (Config example_ic_pod)))))"
    using example_pod_specified by blast
  have h2: "types_Networking.ClusterNetworks (Networking (Config example_ic_nets)) \<noteq> []
           \<or> \<not> IsUnspecified example_ext (IP (IPNet (PodCIDR (Networking (Config example_ic_nets)))))"
    using example_nets_nonempty by blast
  have t1: "types_Networking.Type (Networking (Config example_ic_pod)) = ''OpenshiftSDN''"
    by (simp add: example_ic_pod_def example_installConfig_def)
  have t2: "types_Networking.Type (Networking (Config example_ic_nets)) = ''OVNKubernetes''"
    by (simp add: example_ic_nets_def example_installConfig_def)
  have k: "NetworkTypeOpenshiftSDN example_ext = ''OpenshiftSDN''"
    "SDNModePolicy example_ext = ''NetworkPolicy''"
    by (simp_all add: example_ext_def)
  from Generate_default_network [OF h1, of empty_Networking]
  have a: "\<exists>c. config (fst (Networking_Generate example_ext example_ic_pod empty_Networking)) = Some c
        \<and> Type (DefaultNetwork (Spec c)) = ''OpenshiftSDN''
        \<and> OpenshiftSDNConfig (DefaultNetwork (Spec c)) = Some \<lparr>Mode = ''NetworkPolicy''\<rparr>"
    by (simp add: t1 k)
  from Generate_default_network [OF h2, of empty_Networking]
  have b: "\<exists>c. config (fst (Networking_Generate example_ext example_ic_nets empty_Networking)) = Some c
        \<and> Type (DefaultNetwork (Spec c)) = ''OVNKubernetes''
        \<and> OpenshiftSDNConfig (DefaultNetwork (Spec c)) = None"
    by (simp add: t2 k)
  from a b show ?thesis by blast
qed

subsection \<open>\<open>Networking.Load\<close>\<close>

text \<open>
  Claim C6. \<open>Load\<close> fetches the CRD file and then, once it has it, the config file. When
  the fetch of either file reports an error \<open>e\<close>, \<open>Load\<close> returns \<open>false\<close> with the
  asset unchanged: with no error when \<open>e\<close> is a does-not-exist error, and with \<open>e\<close> itself
  otherwise.
\<close>

theorem Load_fetch_error:
  assumes "f (noCrdFilename ext) = Inl e
           \<or> (\<exists>crdFile. f (noCrdFilename ext) = Inr crdFile \<and> f (noCfgFilename ext) = Inl e)"
  shows "Networking_Load ext f no = (no, False, if os_IsNotExist e then None else Some e)"
  using assms by (auto simp: Networking_Load_def)

theorem Load_fetch_error_witness:
  "fetcher_of [\<lparr>Filename = ''manifests/cluster-network-01-crd.yml'', Data = netConfigCRD\<rparr>]
       (noCrdFilename example_ext) =
     Inr \<lparr>Filename = ''manifests/cluster-network-01-crd.yml'', Data = netConfigCRD\<rparr>
   \<and> fetcher_of [\<lparr>Filename = ''manifests/cluster-network-01-crd.yml'', Data = netConfigCRD\<rparr>]
       (noCfgFilename example_ext) =
     Inl (ErrNotExist ''manifests/cluster-network-02-config.yml'')
   \<and> Networking_Load example_ext
       (fetcher_of [\<lparr>Filename = ''manifests/cluster-network-01-crd.yml'', Data = netConfigCRD\<rparr>])
       empty_Networking = (empty_Networking, False, None)"
proof -
  let ?f = "fetcher_of [\<lparr>Filename = ''manifests/cluster-network-01-crd.yml'', Data = netConfigCRD\<rparr>]"
  have crd: "?f (noCrdFilename example_ext) =
      Inr \<lparr>Filename = ''manifests/cluster-network-01-crd.yml'', Data = netConfigCRD\<rparr>"
    by (simp add: fetcher_of_def example_filenames)
  have cfg: "?f (noCfgFilename example_ext) = Inl (ErrNotExist ''manifests/cluster-network-02-config.yml'')"
    by (simp add: fetcher_of_def example_filenames)
  have h: "?f (noCrdFilename example_ext) = Inl (ErrNotExist ''manifests/cluster-network-02-config.yml'')
           \<or> (\<exists>crdFile. ?f (noCrdFilename example_ext) = Inr crdFile
                 \<and> ?f (noCfgFilename example_ext) = Inl (ErrNotExist ''manifests/cluster-network-02-config.yml''))"
    using crd cfg by blast
  from Load_fetch_error [OF h, of empty_Networking]
  have "Networking_Load example_ext ?f empty_Networking = (empty_Networking, False, None)"
    by simp
  with crd cfg show ?thesis by blast
qed

text \<open>
  The order of the two fetches shows when the CRD file cannot be read and the config file
  is absent: the error of the CRD fetch is returned, and the config file is not asked for.
\<close>

lemma Load_crd_error_first:
  "example_fetcher_denied (noCfgFilename example_ext) =
     Inl (ErrNotExist ''manifests/cluster-network-02-config.yml'')
   \<and> os_IsNotExist (ErrNotExist ''manifests/cluster-network-02-config.yml'')
   \<and> Networking_Load example_ext example_fetcher_denied empty_Networking =
       (empty_Networking, False,
        Some (ErrOther ''open manifests/cluster-network-01-crd.yml: permission denied''))"
  by (simp add: Networking_Load_def example_fetcher_denied_def example_filenames)

text \<open>
  Claim C7. When both files are fetched and the codec fails on the bytes of the config
  file, \<open>Load\<close> returns \<open>false\<close> and the codec's error wrapped with the message
  "failed to unmarshal" followed by the name of the config file.
\<close>

theorem Load_unmarshal_error:
  assumes "f (noCrdFilename ext) = Inr crdFile"
      and "f (noCfgFilename ext) = Inr cfgFile"
      and "yaml_Unmarshal ext (File.Data cfgFile) = Inl err"
  shows "Networking_Load ext f no =
           (no, False, Some (Wrapf err (''failed to unmarshal '' @ noCfgFilename ext)))"
  using assms by (simp add: Networking_Load_def)

theorem Load_unmarshal_error_witness:
  "fetcher_of example_files_bad_yaml (noCrdFilename example_ext) =
     Inr \<lparr>Filename = ''manifests/cluster-network-01-crd.yml'', Data = netConfigCRD\<rparr>
   \<and> fetcher_of example_files_bad_yaml (noCfgFilename example_ext) =
     Inr \<lparr>Filename = ''manifests/cluster-network-02-config.yml'', Data = ''spec: [unclosed''\<rparr>
   \<and> yaml_Unmarshal example_ext ''spec: [unclosed'' =
     Inl (ErrOther ''yaml: cannot unmarshal the document'')
   \<and> Networking_Load example_ext (fetcher_of example_files_bad_yaml) empty_Networking =
       (empty_Networking, False,
        Some (Wrapf (ErrOther ''yaml: cannot unmarshal the document'')
                ''failed to unmarshal manifests/cluster-network-02-config.yml''))"
proof -
  have crd: "fetcher_of example_files_bad_yaml (noCrdFilename example_ext) =
      Inr \<lparr>Filename = ''manifests/cluster-network-01-crd.yml'', Data = netConfigCRD\<rparr>"
    by (simp add: fetcher_of_def example_files_bad_yaml_def example_filenames)
  have cfg: "fetcher_of example_files_bad_yaml (noCfgFilename example_ext) =
      Inr \<lparr>Filename = ''manifests/cluster-network-02-config.yml'', Data = ''spec: [unclosed''\<rparr>"
    by (simp add: fetcher_of_def example_files_bad_yaml_def example_filenames)
  have un: "yaml_Unmarshal example_ext ''spec: [unclosed'' =
      Inl (ErrOther ''yaml: cannot unmarshal the document'')"
    by (simp add: example_Unmarshal example_Unmarshal_def example_render_def)
  have un': "yaml_Unmarshal example_ext
       (File.Data \<lparr>Filename = ''manifests/cluster-network-02-config.yml'', Data = ''spec: [unclosed''\<rparr>) =
      Inl (ErrOther ''yaml: cannot unmarshal the document'')"
    using un by simp
  from Load_unmarshal_error [OF crd cfg un', of empty_Networking]
  have "Networking_Load example_ext (fetcher_of example_files_bad_yaml) empty_Networking =
       (empty_Networking, False,
        Some (Wrapf (ErrOther ''yaml: cannot unmarshal the document'')
                ''failed to unmarshal manifests/cluster-network-02-config.yml''))"
    by (simp add: example_filenames)
  with crd cfg un show ?thesis by blast
qed

text \<open>
  Claim C10. Whenever \<open>Load\<close> returns \<open>false\<close>, the asset's configuration and file list
  are the ones it had before the call.
\<close>

theorem Load_false_keeps_state:
  assumes "\<not> fst (snd (Networking_Load ext f no))"
  shows "config (fst (Networking_Load ext f no)) = config no
         \<and> FileList (fst (Networking_Load ext f no)) = FileList no"
  using assms by (auto simp: Networking_Load_def split: sum.splits if_splits)

theorem Load_false_keeps_state_witness:
  "\<not> fst (snd (Networking_Load example_ext (fetcher_of example_files_bad_yaml)
                 \<lparr>config = Some example_config_nets, FileList = []\<rparr>))
   \<and> config (fst (Networking_Load example_ext (fetcher_of example_files_bad_yaml)
                 \<lparr>config = Some example_config_nets, FileList = []\<rparr>)) = Some example_config_nets
   \<and> FileList (fst (Networking_Load example_ext (fetcher_of example_files_bad_yaml)
                 \<lparr>config = Some example_config_nets, FileList = []\<rparr>)) = []"
proof -
  let ?no = "\<lparr>config = Some example_config_nets, FileList = []\<rparr>"
  have h: "\<not> fst (snd (Networking_Load example_ext (fetcher_of example_files_bad_yaml) ?no))"
    by (simp add: Networking_Load_def fetcher_of_def example_files_bad_yaml_def example_filenames
          example_Unmarshal example_Unmarshal_def example_render_def)
  from Load_false_keeps_state [OF h] h show ?thesis by simp
qed

text \<open>
  Claim C4. \<open>Load\<close> after \<open>Generate\<close> is a round trip. Let \<open>Generate\<close> succeed, let the
  fetcher return each of the generated files under its name, and let the codec read back
  the configuration it wrote. Then \<open>Load\<close>, from any state of the asset, returns
  \<open>(true, nil)\<close> and holds the configuration and the two files \<open>Generate\<close> produced.
\<close>

theorem Load_after_Generate:
  assumes gen: "Networking_Generate ext ic no = (generated, None)"
      and fetch: "\<forall>file \<in> set (FileList generated). f (Filename file) = Inr file"
      and codec: "\<forall>c d. config generated = Some c \<and> yaml_Marshal ext c = Inr d
                     \<longrightarrow> yaml_Unmarshal ext d = Inr c"
  shows "snd (Networking_Load ext f no') = (True, None)
         \<and> config (fst (Networking_Load ext f no')) = config generated
         \<and> FileList (fst (Networking_Load ext f no')) = FileList generated"
proof -
  from gen obtain c d where c: "config generated = Some c" and d: "yaml_Marshal ext c = Inr d"
    and files: "FileList generated = [\<lparr>Filename = noCrdFilename ext, Data = netConfigCRD\<rparr>,
                                      \<lparr>Filename = noCfgFilename ext, Data = d\<rparr>]"
    using Generate_success_files by blast
  from fetch files have crd:
    "f (noCrdFilename ext) = Inr \<lparr>Filename = noCrdFilename ext, Data = netConfigCRD\<rparr>"
    by simp
  from fetch files have cfg:
    "f (noCfgFilename ext) = Inr \<lparr>Filename = noCfgFilename ext, Data = d\<rparr>"
    by simp
  from codec c d have un: "yaml_Unmarshal ext d = Inr c" by blast
  show ?thesis
    by (simp add: Networking_Load_def crd cfg un c files)
qed

theorem Load_after_Generate_witness:
  "Networking_Generate example_ext example_ic_pod empty_Networking =
     (fst (Networking_Generate example_ext example_ic_pod empty_Networking), None)
   \<and> Networking_Load example_ext
        (fetcher_of (FileList (fst (Networking_Generate example_ext example_ic_pod empty_Networking))))
        empty_Networking =
       (fst (Networking_Generate example_ext example_ic_pod empty_Networking), True, None)"
proof -
  let ?g = "fst (Networking_Generate example_ext example_ic_pod empty_Networking)"
  have g: "?g = \<lparr>config = Some example_config_pod,
       FileList = [\<lparr>Filename = ''manifests/cluster-network-01-crd.yml'', Data = netConfigCRD\<rparr>,
                   \<lparr>Filename = ''manifests/cluster-network-02-config.yml'',
                    Data = example_render example_config_pod\<rparr>]\<rparr>"
    by (simp add: example_Generate_pod)
  have gen: "Networking_Generate example_ext example_ic_pod empty_Networking = (?g, None)"
    by (simp add: example_Generate_pod)
  have fetch: "\<forall>file \<in> set (FileList ?g). fetcher_of (FileList ?g) (Filename file) = Inr file"
    by (simp add: g fetcher_of_def)
  have codec: "\<forall>c d. config ?g = Some c \<and> yaml_Marshal example_ext c = Inr d
                     \<longrightarrow> yaml_Unmarshal example_ext d = Inr c"
  proof (intro allI impI)
    fix c d
    assume a: "config ?g = Some c \<and> yaml_Marshal example_ext c = Inr d"
    from a have c: "c = example_config_pod" by (simp add: g)
    from a have d: "d = example_render c" by (simp add: example_Marshal)
    show "yaml_Unmarshal example_ext d = Inr c"
      by (simp add: c d example_Unmarshal example_Unmarshal_def)
  qed
  from Load_after_Generate [OF gen fetch codec, of empty_Networking]
  have "Networking_Load example_ext (fetcher_of (FileList ?g)) empty_Networking = (?g, True, None)"
    by (cases "Networking_Load example_ext (fetcher_of (FileList ?g)) empty_Networking") auto
  with gen show ?thesis by blast
qed

subsection \<open>\<open>Networking.ClusterNetwork\<close>\<close>

text \<open>
  Claim C9. \<open>ClusterNetwork\<close> returns an error exactly when the asset holds no
  configuration. When it holds one, the result has the service network as its only
  service block and the CIDRs of the cluster networks, in order, as its pod blocks.
\<close>

theorem ClusterNetwork_result:
  "((\<exists>e. Networking_ClusterNetwork no = Inl e) \<longleftrightarrow> config no = None)
   \<and> (\<forall>c. config no = Some c \<longrightarrow>
         Networking_ClusterNetwork no =
           Inr \<lparr>Services = \<lparr>CIDRBlocks = [ServiceNetwork (Spec c)]\<rparr>,
                Pods = \<lparr>CIDRBlocks = map CIDR (ClusterNetworks (Spec c))\<rparr>\<rparr>)"
  by (cases "config no") (simp_all add: Networking_ClusterNetwork_def append_CIDRs_map)

theorem ClusterNetwork_result_witness:
  "(\<exists>e. Networking_ClusterNetwork empty_Networking = Inl e)
   \<and> config (fst (Networking_Generate example_ext example_ic_nets empty_Networking)) =
       Some example_config_nets
   \<and> Networking_ClusterNetwork (fst (Networking_Generate example_ext example_ic_nets empty_Networking)) =
       Inr \<lparr>Services = \<lparr>CIDRBlocks = [''172.30.0.0/16'']\<rparr>,
            Pods = \<lparr>CIDRBlocks = [''10.128.0.0/14'', ''10.132.0.0/14'']\<rparr>\<rparr>"
proof -
  let ?g = "fst (Networking_Generate example_ext example_ic_nets empty_Networking)"
  have e: "config empty_Networking = None" by (simp add: empty_Networking_def)
  have g: "config ?g = Some example_config_nets" by (simp add: example_Generate_nets)
  from ClusterNetwork_result [of empty_Networking] e
  have a: "\<exists>e. Networking_ClusterNetwork empty_Networking = Inl e" by blast
  from ClusterNetwork_result [of ?g] g
  have "Networking_ClusterNetwork ?g =
      Inr \<lparr>Services = \<lparr>CIDRBlocks = [ServiceNetwork (Spec example_config_nets)]\<rparr>,
           Pods = \<lparr>CIDRBlocks = map CIDR (ClusterNetworks (Spec example_config_nets))\<rparr>\<rparr>"
    by blast
  then have b: "Networking_ClusterNetwork ?g =
      Inr \<lparr>Services = \<lparr>CIDRBlocks = [''172.30.0.0/16'']\<rparr>,
           Pods = \<lparr>CIDRBlocks = [''10.128.0.0/14'', ''10.132.0.0/14'']\<rparr>\<rparr>"
    by (simp add: example_config_nets_def)
  from a g b show ?thesis by blast
qed

subsection \<open>\<open>clusterDNSOperator.dnsOperatorConfig\<close>\<close>

text \<open>
  \<open>dnsOperatorConfig\<close> returns the error of \<open>ClusterDNSIP\<close> with no configuration, and
  otherwise the cluster IP beside the base domain of the install configuration.
\<close>

lemma dnsOperatorConfig_helper_error:
  assumes "installConfig cdo = Some ic" and "ClusterDNSIP ext ic = Inl e"
  shows "dnsOperatorConfig ext cdo = (None, Some e)"
  using assms by (simp add: dnsOperatorConfig_def)

lemma dnsOperatorConfig_result:
  assumes "installConfig cdo = Some ic" and "ClusterDNSIP ext ic = Inr clusterIP"
  shows "dnsOperatorConfig ext cdo =
           (Some \<lparr>ClusterDNS.Spec = \<lparr>ClusterIP = Some clusterIP,
                                      ClusterDomain = Some (BaseDomain ic)\<rparr>\<rparr>, None)"
  using assms by (simp add: dnsOperatorConfig_def)

end
